theory Spec2Isabelle
  imports Main "HOL-Library.Char_ord" "HOL-Library.List_Lexorder"
begin

section \<open>Data model of \<open>simple_langgraph_test.py\<close>\<close>

text \<open>
  A message of the conversation (\<open>HumanMessage\<close>, \<open>AIMessage\<close>, \<open>SystemMessage\<close>): its
  class, its text content and the extra \<open>metadata\<close> keyword, a dictionary, when given.
\<close>

datatype role = Human | AI | System

record message =
  role :: role
  content :: string
  metadata :: "(string \<times> string) list option"

definition HumanMessage :: "string \<Rightarrow> message" where
  "HumanMessage c = \<lparr>role = Human, content = c, metadata = None\<rparr>"

definition SystemMessage :: "string \<Rightarrow> message" where
  "SystemMessage c = \<lparr>role = System, content = c, metadata = None\<rparr>"

definition AIMessage :: "string \<Rightarrow> (string \<times> string) list option \<Rightarrow> message" where
  "AIMessage c m = \<lparr>role = AI, content = c, metadata = m\<rparr>"

text \<open>\<open>class CorpusData(BaseModel)\<close>: one file of the corpus.\<close>

record CorpusData =
  name :: string
  description :: string
  status :: string
  gcs_uri :: string
  created :: string
  updated :: string
  user_metadata :: "string option"

text \<open>
  \<open>class GraphState(BaseModel)\<close>. \<open>question_type\<close> is \<open>None\<close> or a string; the two
  literals the annotation names are \<open>corpus_overview\<close> and \<open>specific_query\<close>, and the
  router below compares with the first only, so any string is admitted here.
\<close>

record GraphState =
  messages :: "message list"
  question_type :: "string option"
  corpus_data :: "CorpusData list option"

text \<open>
  The dictionary a node returns: each key is present or not. A present \<open>question_type\<close>
  key may carry \<open>None\<close>.
\<close>

record delta =
  d_messages :: "message list option"
  d_question_type :: "string option option"
  d_corpus_data :: "CorpusData list option"

section \<open>Python values and operations the nodes rely on\<close>

text \<open>
  The exceptions of the program. A \<open>ValueError\<close> is one the program raises itself, with
  its message, or the one \<open>int\<close> or \<open>float\<close> raises on a string it cannot convert; the text
  of the latter is not modelled, only the string. \<open>IndexError\<close> and \<open>AttributeError\<close> carry
  their message, and \<open>ServiceError\<close> stands for whatever a remote call or a client
  library raises.
\<close>

datatype value_error = Message string | CannotConvert string

datatype error =
    ValueError value_error
  | IndexError string
  | AttributeError string
  | ServiceError string

text \<open>
  \<open>not x\<close> for a value that is \<open>None\<close> or a string: \<open>None\<close> and the empty string are
  falsy. \<open>truthy\<close> hands back the string when there is a non-empty one.
\<close>

definition truthy :: "string option \<Rightarrow> string option" where
  "truthy x = (case x of None \<Rightarrow> None | Some v \<Rightarrow> if v = [] then None else Some v)"

text \<open>\<open>xs[-1]\<close>: the last element, \<open>IndexError\<close> on an empty sequence.\<close>

definition last_item :: "'a list \<Rightarrow> error + 'a" where
  "last_item xs =
     (if xs = [] then Inl (IndexError ''list index out of range'') else Inr (last xs))"

text \<open>\<open>sep.join(xs)\<close>.\<close>

fun join :: "string \<Rightarrow> string list \<Rightarrow> string" where
  "join sep [] = []"
| "join sep [x] = x"
| "join sep (x # y # ys) = x @ sep @ join sep (y # ys)"

text \<open>\<open>s.split(c)\<close> for a separator of one character: never an empty list.\<close>

fun split :: "char \<Rightarrow> string \<Rightarrow> string list" where
  "split sep [] = [[]]"
| "split sep (c # cs) =
     (if c = sep then [] # split sep cs
      else (case split sep cs of [] \<Rightarrow> [[c]] | p # ps \<Rightarrow> (c # p) # ps))"

text \<open>
  \<open>s.replace(old, new)\<close>: every occurrence, left to right, without overlap; an empty
  \<open>old\<close> matches before every character and at the end.
\<close>

function replace :: "string \<Rightarrow> string \<Rightarrow> string \<Rightarrow> string" where
  "replace old new s =
     (if old = [] then new @ concat (map (\<lambda>c. c # new) s)
      else if s = [] then []
      else if take (length old) s = old then new @ replace old new (drop (length old) s)
      else hd s # replace old new (tl s))"
  by pat_completeness auto
termination
  by (relation "measure (\<lambda>(old, new, s). length s)") auto

declare replace.simps [simp del]

text \<open>
  \<open>int(s)\<close> on a string of ASCII characters, base 10, as CPython's \<open>PyLong_FromString\<close>
  reads it: white space around (tab, line feed, vertical tab, form feed, carriage return
  and space; the separators 28 to 31 are not skipped), an optional sign, then decimal
  digits where single underscores may stand between two digits, and no more than 4300
  digits, the default limit of the interpreter; \<open>None\<close> where Python raises \<open>ValueError\<close>.
\<close>

definition is_space :: "char \<Rightarrow> bool" where
  "is_space c = ((of_char c :: nat) \<in> {9, 10, 11, 12, 13, 32})"

definition is_digit :: "char \<Rightarrow> bool" where
  "is_digit c = (48 \<le> (of_char c :: nat) \<and> (of_char c :: nat) \<le> 57)"

definition digit_value :: "char \<Rightarrow> nat" where
  "digit_value c = of_char c - 48"

definition strip :: "string \<Rightarrow> string" where
  "strip s = rev (dropWhile is_space (rev (dropWhile is_space s)))"

fun more_digits :: "nat \<Rightarrow> string \<Rightarrow> nat option" where
  "more_digits acc [] = Some acc"
| "more_digits acc (c # cs) =
     (if is_digit c then more_digits (10 * acc + digit_value c) cs
      else if c = CHR ''_'' then
        (case cs of
           [] \<Rightarrow> None
         | d # ds \<Rightarrow>
             if is_digit d then more_digits (10 * acc + digit_value d) ds else None)
      else None)"

definition max_str_digits :: nat where
  "max_str_digits = 4300"

definition digits :: "string \<Rightarrow> nat option" where
  "digits s =
     (case s of
        [] \<Rightarrow> None
      | c # cs \<Rightarrow>
          if is_digit c then
            (case more_digits (digit_value c) cs of
               None \<Rightarrow> None
             | Some n \<Rightarrow> if length (filter is_digit s) > max_str_digits then None else Some n)
          else None)"

definition py_int :: "string \<Rightarrow> int option" where
  "py_int s =
     (case strip s of
        [] \<Rightarrow> None
      | c # cs \<Rightarrow>
          if c = CHR ''-'' then map_option (\<lambda>n. - int n) (digits cs)
          else if c = CHR ''+'' then map_option int (digits cs)
          else map_option int (digits (c # cs)))"

definition is_ascii :: "string \<Rightarrow> bool" where
  "is_ascii s = (\<forall>c \<in> set s. (of_char c :: nat) < 128)"

text \<open>\<open>str(n)\<close> for an integer, as the f-strings render it.\<close>

fun str_nat :: "nat \<Rightarrow> string" where
  "str_nat n =
     (if n < 10 then [''0123456789'' ! n]
      else str_nat (n div 10) @ [''0123456789'' ! (n mod 10)])"

declare str_nat.simps [simp del]

definition str_int :: "int \<Rightarrow> string" where
  "str_int i = (if i < 0 then CHR ''-'' # str_nat (nat (- i)) else str_nat (nat i))"

text \<open>\<open>os.path.join(a, b)\<close> on a POSIX system.\<close>

definition path_join :: "string \<Rightarrow> string \<Rightarrow> string" where
  "path_join a b =
     (if b \<noteq> [] \<and> hd b = CHR ''/'' then b
      else if a = [] \<or> last a = CHR ''/'' then a @ b
      else a @ ''/'' @ b)"

section \<open>The outside world\<close>

text \<open>
  What the program reads and calls outside itself: the process environment, the
  directory listing, the storage client, the Vertex AI RAG client and the chat model.
  Each remote call is a function of its arguments that returns a value or raises.
\<close>

text \<open>
  The response of \<open>rag.retrieval_query\<close> as \<open>retrieve_node\<close> inspects it. The attribute
  \<open>contexts\<close> may be missing (\<open>None\<close> below); when there, it is either the sequence of
  contexts itself or an object whose own attribute \<open>contexts\<close> is that sequence. A context
  has an attribute \<open>text\<close> (the field \<open>context_text\<close>) or not.
\<close>

record rag_context =
  context_text :: "string option"

datatype contexts_attr = Sequence "rag_context list" | Container "rag_context list"

record retrieval_response =
  contexts :: "contexts_attr option"

text \<open>
  A \<open>RagFile\<close> of \<open>rag.list_files\<close> as \<open>corpus_data_node\<close> reads it. For the
  attributes the node guards with \<open>hasattr\<close> (\<open>file_status\<close>, its \<open>state\<close>, and
  \<open>user_metadata\<close>), the outer \<open>None\<close> says the attribute is missing. The state is a
  member of the enumeration \<open>FileStatus.State\<close> of the Vertex AI library, an \<open>IntEnum\<close>
  with the members \<open>STATE_UNSPECIFIED\<close> (0), \<open>ACTIVE\<close> (1) and \<open>ERROR\<close> (2).
  \<open>create_time\<close> and \<open>update_time\<close> hold the \<open>str\<close> of the time stamp, \<open>None\<close> for a
  falsy one. The fields \<open>file_description\<close> and \<open>file_user_metadata\<close> are the attributes
  \<open>description\<close> and \<open>user_metadata\<close>.
\<close>

datatype State = STATE_UNSPECIFIED | ACTIVE | ERROR

record FileStatus =
  file_state :: "State option"

record GcsSource =
  uris :: "string list"

record RagFile =
  display_name :: string
  file_description :: "string option"
  file_status :: "FileStatus option"
  gcs_source :: "GcsSource option"
  create_time :: "string option"
  update_time :: "string option"
  file_user_metadata :: "string option option"

record import_response =
  imported_rag_files_count :: int
  skipped_rag_files_count :: int

text \<open>\<open>class QuestionTypeResponse(BaseModel)\<close>, the schema of the structured call.\<close>

datatype QuestionTypeResponse = QuestionTypeResponse (response_question_type: "string option")

text \<open>
  The keyword arguments \<open>get_lc_llm\<close> gives to \<open>ChatGoogleGenerativeAI\<close>. The temperature
  is the default \<open>0.7\<close> or the float read from a string, kept as that string.
\<close>

datatype temperature = Default_0_7 | FloatOf string

record llm =
  model :: string
  project :: "string option"
  location :: string
  temperature :: temperature
  max_output_tokens :: int

text \<open>
  The fields of the world: the environment; the interpreter's \<open>int\<close> on a string with a
  non-ASCII character, where the Unicode white space and decimal digits count, and its
  \<open>float\<close>, as the set of strings it accepts; whether \<open>str\<close> of an \<open>IntEnum\<close> member is
  its number (Python 3.11 and later) or \<open>Class.MEMBER\<close>; and the remote calls. The
  structured call of the model returns an object of the schema or \<open>None\<close>.
\<close>

record world =
  environ :: "string \<Rightarrow> string option"
  int_of_unicode :: "string \<Rightarrow> int option"
  int_enum_str_is_number :: bool
  listdir :: "string \<Rightarrow> error + string list"
  upload_from_filename :: "string \<Rightarrow> string \<Rightarrow> string \<Rightarrow> error option"
  vertexai_init :: "string \<Rightarrow> string \<Rightarrow> error option"
  rag_import_files :: "string \<Rightarrow> string list \<Rightarrow> int \<Rightarrow> int \<Rightarrow> error + import_response"
  rag_list_files :: "string option \<Rightarrow> error + RagFile list"
  rag_retrieval_query :: "string \<Rightarrow> string \<Rightarrow> int \<Rightarrow> error + retrieval_response"
  float_accepts :: "string \<Rightarrow> bool"
  chat_model :: "llm \<Rightarrow> error option"
  llm_invoke :: "llm \<Rightarrow> message list \<Rightarrow> error + message"
  llm_invoke_structured :: "llm \<Rightarrow> message list \<Rightarrow> error + QuestionTypeResponse option"

text \<open>\<open>os.getenv(k)\<close> and \<open>os.getenv(k, default)\<close>.\<close>

definition getenv :: "world \<Rightarrow> string \<Rightarrow> string option" where
  "getenv w k = environ w k"

definition getenv_default :: "world \<Rightarrow> string \<Rightarrow> string \<Rightarrow> string" where
  "getenv_default w k d = (case environ w k of None \<Rightarrow> d | Some v \<Rightarrow> v)"

text \<open>\<open>int(s)\<close> on any string: a number, or the \<open>ValueError\<close> of the conversion.\<close>

definition int_of_str :: "world \<Rightarrow> string \<Rightarrow> error + int" where
  "int_of_str w s =
     (case (if is_ascii s then py_int s else int_of_unicode w s) of
        None \<Rightarrow> Inl (ValueError (CannotConvert s))
      | Some n \<Rightarrow> Inr n)"

text \<open>\<open>str(state)\<close> for a member of \<open>FileStatus.State\<close>.\<close>

definition state_name :: "State \<Rightarrow> string" where
  "state_name st =
     (case st of
        STATE_UNSPECIFIED \<Rightarrow> ''STATE_UNSPECIFIED''
      | ACTIVE \<Rightarrow> ''ACTIVE''
      | ERROR \<Rightarrow> ''ERROR'')"

definition state_number :: "State \<Rightarrow> int" where
  "state_number st = (case st of STATE_UNSPECIFIED \<Rightarrow> 0 | ACTIVE \<Rightarrow> 1 | ERROR \<Rightarrow> 2)"

definition str_state :: "world \<Rightarrow> State \<Rightarrow> string" where
  "str_state w st =
     (if int_enum_str_is_number w then str_int (state_number st)
      else ''State.'' @ state_name st)"

text \<open>
  A run of a function is the list of remote calls it made, in order, and then its result
  or the exception that ended it. Console output is not recorded.
\<close>

datatype call =
    UploadFromFilename string string string
  | VertexaiInit string string
  | RagImportFiles string "string list" int int
  | RagListFiles "string option"
  | RagRetrievalQuery string string int
  | LlmInvoke llm "message list"
  | LlmInvokeStructured llm "message list"

type_synonym 'a run = "call list \<times> (error + 'a)"

definition succeed :: "'a \<Rightarrow> 'a run" where
  "succeed x = ([], Inr x)"

definition fail :: "error \<Rightarrow> 'a run" where
  "fail e = ([], Inl e)"

definition pure_step :: "error + 'a \<Rightarrow> 'a run" where
  "pure_step r = ([], r)"

definition and_then :: "'a run \<Rightarrow> ('a \<Rightarrow> 'b run) \<Rightarrow> 'b run" where
  "and_then m f =
     (case m of
        (t, Inl e) \<Rightarrow> (t, Inl e)
      | (t, Inr x) \<Rightarrow> (case f x of (t', r) \<Rightarrow> (t @ t', r)))"

definition unit_result :: "error option \<Rightarrow> error + unit" where
  "unit_result r = (case r of None \<Rightarrow> Inr () | Some e \<Rightarrow> Inl e)"

definition do_vertexai_init :: "world \<Rightarrow> string \<Rightarrow> string \<Rightarrow> unit run" where
  "do_vertexai_init w p l = ([VertexaiInit p l], unit_result (vertexai_init w p l))"

definition do_retrieval_query :: "world \<Rightarrow> string \<Rightarrow> string \<Rightarrow> int \<Rightarrow> retrieval_response run" where
  "do_retrieval_query w corpus txt top_k =
     ([RagRetrievalQuery corpus txt top_k], rag_retrieval_query w corpus txt top_k)"

definition do_list_files :: "world \<Rightarrow> string option \<Rightarrow> RagFile list run" where
  "do_list_files w corpus = ([RagListFiles corpus], rag_list_files w corpus)"

definition do_import_files ::
  "world \<Rightarrow> string \<Rightarrow> string list \<Rightarrow> int \<Rightarrow> int \<Rightarrow> import_response run" where
  "do_import_files w corpus paths chunk_size chunk_overlap =
     ([RagImportFiles corpus paths chunk_size chunk_overlap],
      rag_import_files w corpus paths chunk_size chunk_overlap)"

definition do_upload_from_filename :: "world \<Rightarrow> string \<Rightarrow> string \<Rightarrow> string \<Rightarrow> unit run" where
  "do_upload_from_filename w bucket_name dest_blob local_file =
     ([UploadFromFilename bucket_name dest_blob local_file],
      unit_result (upload_from_filename w bucket_name dest_blob local_file))"

definition do_llm_invoke :: "world \<Rightarrow> llm \<Rightarrow> message list \<Rightarrow> message run" where
  "do_llm_invoke w l ms = ([LlmInvoke l ms], llm_invoke w l ms)"

definition do_llm_invoke_structured ::
  "world \<Rightarrow> llm \<Rightarrow> message list \<Rightarrow> QuestionTypeResponse option run" where
  "do_llm_invoke_structured w l ms = ([LlmInvokeStructured l ms], llm_invoke_structured w l ms)"

section \<open>The nodes\<close>

subsection \<open>\<open>retrieve_node\<close>, lines 77 to 124\<close>

text \<open>Lines 106 to 114: the texts of the contexts of the response.\<close>

definition extract_context_texts :: "retrieval_response \<Rightarrow> string list" where
  "extract_context_texts resp =
     (case contexts resp of
        None \<Rightarrow> []
      | Some cs \<Rightarrow>
          (let ctxs = (case cs of Sequence xs \<Rightarrow> xs | Container c \<Rightarrow> c)
           in List.map_filter context_text ctxs))"

text \<open>Lines 116 to 124: the context block and the dictionary returned.\<close>

definition context_text_of :: "string list \<Rightarrow> string" where
  "context_text_of context_texts =
     (if context_texts \<noteq> [] then join [CHR 0x0A, CHR 0x0A] context_texts
      else ''No relevant context was found in the knowledge base.'')"

definition retrieve_result :: "retrieval_response \<Rightarrow> delta" where
  "retrieve_result resp =
     \<lparr>d_messages =
        Some [AIMessage (context_text_of (extract_context_texts resp))
                (Some [(''type'', ''rag_context'')])],
      d_question_type = None,
      d_corpus_data = None\<rparr>"

definition retrieve_node :: "world \<Rightarrow> GraphState \<Rightarrow> delta run" where
  "retrieve_node w state =
     (let corpus = getenv w ''RAG_CORPUS'';
          project = getenv w ''GCP_PROJECT_ID'';
          location = getenv w ''GCP_LOCATION''
      in and_then (pure_step (int_of_str w (getenv_default w ''RAG_TOP_K'' ''5''))) (\<lambda>top_k.
         and_then (pure_step (last_item (messages state))) (\<lambda>m.
         let user_message = content m in
         (case truthy corpus of
            None \<Rightarrow> fail (ValueError (Message ''RAG_CORPUS environment variable is required''))
          | Some c \<Rightarrow>
         (case truthy project of
            None \<Rightarrow> fail (ValueError (Message ''GCP_PROJECT_ID environment variable is required''))
          | Some p \<Rightarrow>
         (case truthy location of
            None \<Rightarrow> fail (ValueError (Message ''GCP_LOCATION environment variable is required''))
          | Some l \<Rightarrow>
         and_then (do_vertexai_init w p l) (\<lambda>_.
         and_then (do_retrieval_query w c user_message top_k) (\<lambda>resp.
         succeed (retrieve_result resp)))))))))"

subsection \<open>\<open>list_corpus_files\<close> (\<open>gcp_rag_helpers.py\<close>, lines 74 to 94) and \<open>corpus_data_node\<close>, lines 127 to 169\<close>

definition list_corpus_files :: "world \<Rightarrow> string option \<Rightarrow> RagFile list run" where
  "list_corpus_files w corpus_name =
     (let project_id = getenv w ''GCP_PROJECT_ID'';
          location = getenv w ''GCP_LOCATION''
      in (case truthy project_id of
            None \<Rightarrow> fail (ValueError (Message ''GCP_PROJECT_ID environment variable is required''))
          | Some p \<Rightarrow>
         (case truthy location of
            None \<Rightarrow> fail (ValueError (Message ''GCP_LOCATION environment variable is required''))
          | Some l \<Rightarrow>
         and_then (do_vertexai_init w p l) (\<lambda>_. do_list_files w corpus_name))))"

text \<open>Lines 140 to 142: \<open>str(f.file_status.state).split(".")[-1]\<close>, or \<open>UNKNOWN\<close>.\<close>

definition status_of :: "world \<Rightarrow> RagFile \<Rightarrow> error + string" where
  "status_of w f =
     (case file_status f of
        None \<Rightarrow> Inr ''UNKNOWN''
      | Some fs \<Rightarrow>
          (case file_state fs of
             None \<Rightarrow> Inr ''UNKNOWN''
           | Some st \<Rightarrow> last_item (split (CHR ''.'') (str_state w st))))"

text \<open>Lines 145 to 149: the first URI of the source, or \<open>N/A\<close>.\<close>

definition gcs_uri_of :: "RagFile \<Rightarrow> string" where
  "gcs_uri_of f =
     (case gcs_source f of
        None \<Rightarrow> ''N/A''
      | Some src \<Rightarrow>
          if uris src \<noteq> [] then (let us = uris src in if us \<noteq> [] then hd us else ''N/A'')
          else ''N/A'')"

text \<open>Lines 151 to 165: the \<open>CorpusData\<close> built for one file.\<close>

definition corpus_entry :: "world \<Rightarrow> RagFile \<Rightarrow> error + CorpusData" where
  "corpus_entry w f =
     (case status_of w f of
        Inl e \<Rightarrow> Inl e
      | Inr st \<Rightarrow>
          Inr \<lparr>name = display_name f,
               description = (case truthy (file_description f) of None \<Rightarrow> [] | Some d \<Rightarrow> d),
               status = st,
               gcs_uri = gcs_uri_of f,
               created = (case create_time f of None \<Rightarrow> ''N/A'' | Some t \<Rightarrow> t),
               updated = (case update_time f of None \<Rightarrow> ''N/A'' | Some t \<Rightarrow> t),
               user_metadata =
                 (case file_user_metadata f of None \<Rightarrow> None | Some m \<Rightarrow> truthy m)\<rparr>)"

text \<open>The loop of lines 137 to 165, appending to \<open>corpus_data_list\<close>.\<close>

fun corpus_data_loop ::
  "world \<Rightarrow> RagFile list \<Rightarrow> CorpusData list \<Rightarrow> error + CorpusData list" where
  "corpus_data_loop w [] corpus_data_list = Inr corpus_data_list"
| "corpus_data_loop w (f # fs) corpus_data_list =
     (case corpus_entry w f of
        Inl e \<Rightarrow> Inl e
      | Inr d \<Rightarrow> corpus_data_loop w fs (corpus_data_list @ [d]))"

definition corpus_data_node :: "world \<Rightarrow> GraphState \<Rightarrow> delta run" where
  "corpus_data_node w state =
     (let corpus = getenv w ''RAG_CORPUS''
      in and_then (list_corpus_files w corpus) (\<lambda>files.
         and_then (pure_step (corpus_data_loop w files [])) (\<lambda>corpus_data_list.
         succeed \<lparr>d_messages = None, d_question_type = None,
                  d_corpus_data = Some corpus_data_list\<rparr>)))"

subsection \<open>The upload helpers of \<open>gcp_rag_helpers.py\<close> and \<open>upload_node\<close>, lines 61 to 74\<close>

text \<open>\<open>upload_to_gcs\<close>, lines 9 to 27.\<close>

definition upload_to_gcs :: "world \<Rightarrow> string \<Rightarrow> string \<Rightarrow> string \<Rightarrow> string run" where
  "upload_to_gcs w local_file bucket dest_blob =
     (let bucket_name = replace ''gs://'' [] bucket
      in and_then (do_upload_from_filename w bucket_name dest_blob local_file) (\<lambda>_.
         succeed (''gs://'' @ bucket_name @ ''/'' @ dest_blob)))"

text \<open>\<open>import_files_to_rag_corpus\<close>, lines 30 to 71; the dictionary it returns.\<close>

record import_result =
  imported_count :: int
  skipped_count :: int

definition import_files_to_rag_corpus ::
  "world \<Rightarrow> string \<Rightarrow> string list \<Rightarrow> int \<Rightarrow> int \<Rightarrow> import_result run" where
  "import_files_to_rag_corpus w corpus_name gcs_uris chunk_size chunk_overlap =
     (let project_id = getenv w ''GCP_PROJECT_ID'';
          location = getenv w ''GCP_LOCATION''
      in (case truthy project_id of
            None \<Rightarrow> fail (ValueError (Message ''GCP_PROJECT_ID environment variable is required''))
          | Some p \<Rightarrow>
         (case truthy location of
            None \<Rightarrow> fail (ValueError (Message ''GCP_LOCATION environment variable is required''))
          | Some l \<Rightarrow>
         and_then (do_vertexai_init w p l) (\<lambda>_.
         and_then (do_import_files w corpus_name gcs_uris chunk_size chunk_overlap) (\<lambda>resp.
         succeed \<lparr>imported_count = imported_rag_files_count resp,
                  skipped_count = skipped_rag_files_count resp\<rparr>)))))"

text \<open>\<open>upload_file_by_index\<close>, lines 97 to 139; the dictionary it returns.\<close>

record upload_result =
  result_filename :: string
  result_gcs_uri :: string
  result_imported_count :: int
  result_skipped_count :: int

definition upload_file_by_index ::
  "world \<Rightarrow> int \<Rightarrow> string \<Rightarrow> string \<Rightarrow> string \<Rightarrow> int \<Rightarrow> int \<Rightarrow> upload_result run" where
  "upload_file_by_index w index bucket corpus_name files_dir chunk_size chunk_overlap =
     and_then (pure_step (listdir w files_dir)) (\<lambda>listing.
       let files = sort listing
       in if index < 0 \<or> index \<ge> int (length files)
          then fail (IndexError (''Index '' @ str_int index @ '' out of range. Found ''
                       @ str_int (int (length files)) @ '' files.''))
          else
            (let filename = files ! nat index;
                 local_path = path_join files_dir filename
             in and_then (upload_to_gcs w local_path bucket filename) (\<lambda>uri.
                and_then (import_files_to_rag_corpus w corpus_name [uri] chunk_size chunk_overlap)
                  (\<lambda>import_result.
                succeed \<lparr>result_filename = filename,
                         result_gcs_uri = uri,
                         result_imported_count = imported_count import_result,
                         result_skipped_count = skipped_count import_result\<rparr>))))"

definition upload_node :: "world \<Rightarrow> GraphState \<Rightarrow> delta run" where
  "upload_node w state =
     (let bucket = getenv w ''GCS_BUCKET'';
          corpus = getenv w ''RAG_CORPUS''
      in (case (truthy bucket, truthy corpus) of
            (Some b, Some c) \<Rightarrow>
              and_then (upload_file_by_index w 1 b c ''files_to_upload'' 1024 256) (\<lambda>result.
              succeed \<lparr>d_messages = Some [], d_question_type = None, d_corpus_data = None\<rparr>)
          | _ \<Rightarrow> succeed \<lparr>d_messages = Some [], d_question_type = None, d_corpus_data = None\<rparr>))"

subsection \<open>\<open>get_lc_llm\<close> (\<open>lc_llm.py\<close>), \<open>determine_question_type\<close> and \<open>summary_node\<close>\<close>

definition float_of_str :: "world \<Rightarrow> string \<Rightarrow> error + temperature" where
  "float_of_str w s =
     (if float_accepts w s then Inr (FloatOf s) else Inl (ValueError (CannotConvert s)))"

definition get_lc_llm :: "world \<Rightarrow> llm run" where
  "get_lc_llm w =
     (let temperature_str = getenv w ''VERTEX_TEMPERATURE''
      in and_then (pure_step (case truthy temperature_str of
                                None \<Rightarrow> Inr Default_0_7
                              | Some s \<Rightarrow> float_of_str w s)) (\<lambda>temp.
         and_then (pure_step (int_of_str w (getenv_default w ''VERTEX_MAX_TOKENS'' ''8192'')))
           (\<lambda>max_tokens.
         let client = \<lparr>model = getenv_default w ''VERTEX_MODEL'' ''gemini-2.5-flash'',
                       project = getenv w ''GCP_PROJECT_ID'',
                       location = getenv_default w ''GCP_LOCATION'' ''us-central1'',
                       temperature = temp,
                       max_output_tokens = max_tokens\<rparr>
         in and_then (pure_step (unit_result (chat_model w client))) (\<lambda>_. succeed client))))"

definition question_type_instruction :: string where
  "question_type_instruction =
     ''Analyze the user'' @ [CHR 0x27] @ ''s question and determine its type:'' @ [CHR 0x0A]
     @ ''1. '' @ [CHR 0x27] @ ''corpus_overview'' @ [CHR 0x27]
     @ '' - if asking about all files, listing files, or general overview of the knowledge base''
     @ [CHR 0x0A]
     @ ''2. '' @ [CHR 0x27] @ ''specific_query'' @ [CHR 0x27]
     @ '' - if asking a specific question that needs to be answered from particular file(s)''
     @ [CHR 0x0A, CHR 0x0A]
     @ ''Respond with ONLY '' @ [CHR 0x27] @ ''corpus_overview'' @ [CHR 0x27] @ '' or ''
     @ [CHR 0x27] @ ''specific_query'' @ [CHR 0x27] @ ''.''"

text \<open>
  \<open>response.question_type\<close>, lines 194 and 197: the attribute of the object, or the
  \<open>AttributeError\<close> of \<open>None\<close>.
\<close>

definition no_question_type :: error where
  "no_question_type =
     AttributeError ([CHR 0x27] @ ''NoneType'' @ [CHR 0x27] @ '' object has no attribute ''
       @ [CHR 0x27] @ ''question_type'' @ [CHR 0x27])"

definition question_type_of :: "QuestionTypeResponse option \<Rightarrow> error + string option" where
  "question_type_of response =
     (case response of
        None \<Rightarrow> Inl no_question_type
      | Some r \<Rightarrow> Inr (response_question_type r))"

definition determine_question_type :: "world \<Rightarrow> GraphState \<Rightarrow> delta run" where
  "determine_question_type w state =
     and_then (get_lc_llm w) (\<lambda>client.
     and_then (pure_step (last_item (messages state))) (\<lambda>m.
     and_then (do_llm_invoke_structured w client [SystemMessage question_type_instruction, m])
       (\<lambda>response.
     and_then (pure_step (question_type_of response)) (\<lambda>label.
     succeed \<lparr>d_messages = None,
              d_question_type = Some label,
              d_corpus_data = None\<rparr>))))"

definition summary_node :: "world \<Rightarrow> GraphState \<Rightarrow> delta run" where
  "summary_node w state =
     and_then (get_lc_llm w) (\<lambda>client.
     let system_message = SystemMessage
           (''You are a helpful assistant. Answer the user''
             @ [CHR 0x27] @ ''s question using the provided context.'');
         prompt_messages = [system_message] @ messages state
     in and_then (do_llm_invoke w client prompt_messages) (\<lambda>response.
        succeed \<lparr>d_messages = Some [response], d_question_type = None, d_corpus_data = None\<rparr>))"

section \<open>Conditional routing\<close>

text \<open>\<open>route_by_question_type\<close>, lines 217 to 224.\<close>

definition route_by_question_type :: "GraphState \<Rightarrow> string" where
  "route_by_question_type state =
     (if question_type state = Some ''corpus_overview''
      then ''corpus_data_node''
      else ''retrieve_node'')"

section \<open>The graph of \<open>main\<close>, lines 251 to 279\<close>

text \<open>The nodes registered with \<open>add_node\<close>, under their names.\<close>

definition nodes :: "(string \<times> (world \<Rightarrow> GraphState \<Rightarrow> delta run)) list" where
  "nodes =
     [(''upload_node'', upload_node),
      (''determine_question_type'', determine_question_type),
      (''corpus_data_node'', corpus_data_node),
      (''retrieve_node'', retrieve_node),
      (''summary_node'', summary_node)]"

text \<open>
  The edges: \<open>START\<close> leads to \<open>determine_question_type\<close>; the node after a node, given
  the state its result was merged into, is \<open>None\<close> at \<open>END\<close>. The conditional edge maps
  each label of the router to the node of the same name.
\<close>

definition entry_point :: string where
  "entry_point = ''determine_question_type''"

definition next_node :: "string \<Rightarrow> GraphState \<Rightarrow> string option" where
  "next_node n state =
     (if n = ''upload_node'' then Some ''determine_question_type''
      else if n = ''determine_question_type'' then
        map_of [(''corpus_data_node'', ''corpus_data_node''), (''retrieve_node'', ''retrieve_node'')]
          (route_by_question_type state)
      else if n = ''corpus_data_node'' then Some ''summary_node''
      else if n = ''retrieve_node'' then Some ''summary_node''
      else None)"

text \<open>
  Modelled from the spec: the reducer \<open>add_messages\<close> that \<open>GraphState\<close> attaches to
  \<open>messages\<close>, and the way the compiled graph merges the dictionary a node returns into
  the state, belong to the graph library and are not in the sources. Section 4.1 of the
  specification gives the merge policy: a \<open>messages\<close> delta is concatenated to the
  existing sequence; a \<open>question_type\<close> or \<open>corpus_data\<close> delta overwrites the value when
  present and is ignored otherwise.
\<close>

definition add_messages :: "message list \<Rightarrow> message list \<Rightarrow> message list" where
  "add_messages left right = left @ right"

definition merge_delta :: "GraphState \<Rightarrow> delta \<Rightarrow> GraphState" where
  "merge_delta state d =
     \<lparr>messages =
        (case d_messages d of
           None \<Rightarrow> messages state
         | Some new \<Rightarrow> add_messages (messages state) new),
      question_type =
        (case d_question_type d of None \<Rightarrow> question_type state | Some q \<Rightarrow> q),
      corpus_data =
        (case d_corpus_data d of None \<Rightarrow> corpus_data state | Some c \<Rightarrow> Some c)\<rparr>"


section \<open>Example inputs\<close>

text \<open>
  A world where every remote call succeeds, over a given environment, with three files in
  the corpus and two in the staging directory; and a state seeded with one user message.
\<close>

definition demo_file_a :: RagFile where
  "demo_file_a =
     \<lparr>display_name = ''a.pdf'', file_description = Some ''first report'',
      file_status = Some \<lparr>file_state = Some ACTIVE\<rparr>,
      gcs_source = Some \<lparr>uris = [''gs://bucket/a.pdf'', ''gs://bucket/copy.pdf'']\<rparr>,
      create_time = Some ''2025-01-01 10:00:00'', update_time = None,
      file_user_metadata = Some (Some ''{}'')\<rparr>"

definition demo_file_b :: RagFile where
  "demo_file_b =
     \<lparr>display_name = ''b.pdf'', file_description = None,
      file_status = None, gcs_source = None,
      create_time = None, update_time = None,
      file_user_metadata = None\<rparr>"

definition demo_file_c :: RagFile where
  "demo_file_c =
     \<lparr>display_name = ''c.pdf'', file_description = Some [],
      file_status = Some \<lparr>file_state = None\<rparr>,
      gcs_source = Some \<lparr>uris = []\<rparr>,
      create_time = None, update_time = Some ''2025-02-02 12:00:00'',
      file_user_metadata = Some (Some [])\<rparr>"

definition demo_world :: "(string \<times> string) list \<Rightarrow> world" where
  "demo_world env =
     \<lparr>environ = map_of env,
      int_of_unicode = (\<lambda>_. None),
      int_enum_str_is_number = False,
      listdir = (\<lambda>_. Inr [''b.pdf'', ''a.pdf'']),
      upload_from_filename = (\<lambda>_ _ _. None),
      vertexai_init = (\<lambda>_ _. None),
      rag_import_files = (\<lambda>_ _ _ _. Inr \<lparr>imported_rag_files_count = 1, skipped_rag_files_count = 0\<rparr>),
      rag_list_files = (\<lambda>_. Inr [demo_file_a, demo_file_b, demo_file_c]),
      rag_retrieval_query = (\<lambda>_ _ _. Inr \<lparr>contexts = Some (Container
         [\<lparr>context_text = Some ''alpha''\<rparr>, \<lparr>context_text = None\<rparr>,
          \<lparr>context_text = Some ''beta''\<rparr>])\<rparr>),
      float_accepts = (\<lambda>_. False),
      chat_model = (\<lambda>_. None),
      llm_invoke = (\<lambda>_ _. Inr (AIMessage ''answer'' None)),
      llm_invoke_structured =
        (\<lambda>_ _. Inr (Some (QuestionTypeResponse (Some ''corpus_overview''))))\<rparr>"

definition demo_env :: "(string \<times> string) list" where
  "demo_env =
     [(''RAG_CORPUS'', ''corpus-1''), (''GCP_PROJECT_ID'', ''project-1''),
      (''GCP_LOCATION'', ''us-central1''), (''GCS_BUCKET'', ''gs://bucket'')]"

definition demo_state :: GraphState where
  "demo_state = \<lparr>messages = [HumanMessage ''What is in a.pdf?''], question_type = None,
                  corpus_data = None\<rparr>"

text \<open>
  The same world with another retrieval response, with another outcome of the structured
  call, and on an interpreter where \<open>str\<close> of an \<open>IntEnum\<close> member is its number.
\<close>

definition demo_world_contexts :: "contexts_attr option \<Rightarrow> world" where
  "demo_world_contexts cs =
     (demo_world demo_env)\<lparr>rag_retrieval_query := (\<lambda>_ _ _. Inr \<lparr>contexts = cs\<rparr>)\<rparr>"

definition demo_world_structured :: "error + QuestionTypeResponse option \<Rightarrow> world" where
  "demo_world_structured r = (demo_world demo_env)\<lparr>llm_invoke_structured := (\<lambda>_ _. r)\<rparr>"

definition demo_world_numbers :: world where
  "demo_world_numbers = (demo_world demo_env)\<lparr>int_enum_str_is_number := True\<rparr>"

text \<open>The client \<open>get_lc_llm\<close> builds in these worlds, and the prompt of the classifier.\<close>

definition demo_client :: llm where
  "demo_client =
     \<lparr>model = ''gemini-2.5-flash'', project = Some ''project-1'', location = ''us-central1'',
      temperature = Default_0_7, max_output_tokens = 8192\<rparr>"

definition demo_prompt :: "message list" where
  "demo_prompt = [SystemMessage question_type_instruction, HumanMessage ''What is in a.pdf?'']"

definition no_messages :: GraphState where
  "no_messages = \<lparr>messages = [], question_type = None, corpus_data = None\<rparr>"

section \<open>Auxiliary facts\<close>

lemmas demo_defs = demo_world_def demo_env_def demo_state_def demo_file_a_def demo_file_b_def
  demo_file_c_def demo_world_contexts_def demo_world_structured_def demo_world_numbers_def
  demo_client_def demo_prompt_def no_messages_def

lemmas run_defs = and_then_def succeed_def fail_def pure_step_def unit_result_def
  do_vertexai_init_def do_retrieval_query_def do_list_files_def do_import_files_def
  do_upload_from_filename_def do_llm_invoke_def do_llm_invoke_structured_def
  getenv_def getenv_default_def truthy_def last_item_def

lemma and_then_Inr:
  "and_then m f = (t, Inr y) \<longleftrightarrow>
     (\<exists>t1 x t2. m = (t1, Inr x) \<and> f x = (t2, Inr y) \<and> t = t1 @ t2)"
  by (auto simp: and_then_def split: prod.splits sum.splits)

lemma and_then_fail [simp]: "and_then (t, Inl e) f = (t, Inl e)"
  by (simp add: and_then_def)

lemma and_then_pure_Inr [simp]: "and_then (pure_step (Inr x)) f = f x"
  by (simp add: and_then_def pure_step_def split: prod.splits)

lemma and_then_pure_Inl [simp]: "and_then (pure_step (Inl e)) f = ([], Inl e)"
  by (simp add: and_then_def pure_step_def)

lemma and_then_succeed [simp]: "and_then (succeed x) f = f x"
  by (simp add: and_then_def succeed_def split: prod.splits)

lemma succeed_eq [simp]: "succeed x = (t, Inr y) \<longleftrightarrow> t = [] \<and> x = y"
  by (auto simp: succeed_def)

lemma fail_eq [simp]: "fail e = (t, Inr y) \<longleftrightarrow> False"
  by (simp add: fail_def)

lemma pure_step_eq [simp]: "pure_step r = (t, r') \<longleftrightarrow> t = [] \<and> r = r'"
  by (auto simp: pure_step_def)

lemma split_not_Nil [simp]: "split sep s \<noteq> []"
  by (induction s) (auto split: list.splits)

lemmas int_defs = int_of_str_def is_ascii_def py_int_def strip_def is_space_def digits_def
  is_digit_def digit_value_def max_str_digits_def

lemma int_of_str_5 [simp]: "int_of_str w ''5'' = Inr 5"
  by (simp add: int_defs)

lemma int_of_str_8192 [simp]: "int_of_str w ''8192'' = Inr 8192"
  by (simp add: int_defs)

lemma int_of_str_cases:
  "int_of_str w s = Inl (ValueError (CannotConvert s)) \<or> (\<exists>n. int_of_str w s = Inr n)"
  by (auto simp: int_of_str_def split: option.splits)

lemma upload_node_delta:
  "upload_node w state = (t, Inr d) \<Longrightarrow>
     d = \<lparr>d_messages = Some [], d_question_type = None, d_corpus_data = None\<rparr>"
  by (auto simp: upload_node_def Let_def and_then_Inr split: option.splits)

lemma determine_question_type_delta:
  "determine_question_type w state = (t, Inr d) \<Longrightarrow>
     d_messages d = None \<and> d_corpus_data d = None \<and> d_question_type d \<noteq> None"
  by (auto simp: determine_question_type_def and_then_Inr)

lemma corpus_data_node_delta:
  "corpus_data_node w state = (t, Inr d) \<Longrightarrow>
     d_messages d = None \<and> d_question_type d = None \<and> d_corpus_data d \<noteq> None"
  by (auto simp: corpus_data_node_def Let_def and_then_Inr)

lemma retrieve_node_delta:
  "retrieve_node w state = (t, Inr d) \<Longrightarrow> \<exists>resp. d = retrieve_result resp"
  by (cases "int_of_str w (getenv_default w ''RAG_TOP_K'' ''5'')";
      cases "last_item (messages state)";
      cases "truthy (getenv w ''RAG_CORPUS'')";
      cases "truthy (getenv w ''GCP_PROJECT_ID'')";
      cases "truthy (getenv w ''GCP_LOCATION'')")
    (auto simp: retrieve_node_def Let_def and_then_Inr)

lemma summary_node_delta:
  "summary_node w state = (t, Inr d) \<Longrightarrow>
     \<exists>m. d = \<lparr>d_messages = Some [m], d_question_type = None, d_corpus_data = None\<rparr>"
  by (auto simp: summary_node_def Let_def and_then_Inr)

lemma retrieve_demo:
  "retrieve_node (demo_world demo_env) demo_state =
     ([VertexaiInit ''project-1'' ''us-central1'',
       RagRetrievalQuery ''corpus-1'' ''What is in a.pdf?'' 5],
      Inr \<lparr>d_messages = Some [AIMessage (''alpha'' @ [CHR 0x0A, CHR 0x0A] @ ''beta'')
                (Some [(''type'', ''rag_context'')])],
           d_question_type = None, d_corpus_data = None\<rparr>)"
  by (simp add: retrieve_node_def demo_defs run_defs retrieve_result_def
      extract_context_texts_def context_text_of_def List.map_filter_def HumanMessage_def)


lemma retrieve_node_after_reads:
  assumes "messages state \<noteq> []"
    and "int_of_str w (getenv_default w ''RAG_TOP_K'' ''5'') = Inr top_k"
  shows "retrieve_node w state =
     (case truthy (getenv w ''RAG_CORPUS'') of
        None \<Rightarrow> ([], Inl (ValueError (Message ''RAG_CORPUS environment variable is required'')))
      | Some c \<Rightarrow>
     (case truthy (getenv w ''GCP_PROJECT_ID'') of
        None \<Rightarrow> ([], Inl (ValueError (Message ''GCP_PROJECT_ID environment variable is required'')))
      | Some p \<Rightarrow>
     (case truthy (getenv w ''GCP_LOCATION'') of
        None \<Rightarrow> ([], Inl (ValueError (Message ''GCP_LOCATION environment variable is required'')))
      | Some l \<Rightarrow>
          and_then (do_vertexai_init w p l) (\<lambda>_.
          and_then (do_retrieval_query w c (content (last (messages state))) top_k) (\<lambda>resp.
          succeed (retrieve_result resp))))))"
  using assms by (simp add: retrieve_node_def Let_def last_item_def fail_def split: option.splits)

lemma upload_file_by_index_out_of_range:
  assumes "listdir w files_dir = Inr listing"
    and "index < 0 \<or> int (length listing) \<le> index"
  shows "upload_file_by_index w index bucket corpus_name files_dir chunk_size chunk_overlap =
           ([], Inl (IndexError (''Index '' @ str_int index @ '' out of range. Found ''
                       @ str_int (int (length listing)) @ '' files.'')))"
  using assms by (auto simp: upload_file_by_index_def Let_def fail_def)

lemma upload_file_by_index_in_range:
  assumes "listdir w files_dir = Inr listing"
    and "0 \<le> index" and "index < int (length listing)"
  shows "\<exists>t r. upload_file_by_index w index bucket corpus_name files_dir chunk_size chunk_overlap =
           (UploadFromFilename (replace ''gs://'' [] bucket) (sort listing ! nat index)
              (path_join files_dir (sort listing ! nat index)) # t, r)"
  using assms
  by (auto simp: upload_file_by_index_def Let_def upload_to_gcs_def and_then_def
      do_upload_from_filename_def split: sum.splits prod.splits)

lemma retrieve_node_response:
  assumes "retrieve_node w state = (t, Inr d)"
  shows "\<exists>resp c top_k.
           rag_retrieval_query w c (content (last (messages state))) top_k = Inr resp
           \<and> d = retrieve_result resp"
  using assms
  by (cases "int_of_str w (getenv_default w ''RAG_TOP_K'' ''5'')";
      cases "last_item (messages state)";
      cases "truthy (getenv w ''RAG_CORPUS'')";
      cases "truthy (getenv w ''GCP_PROJECT_ID'')";
      cases "truthy (getenv w ''GCP_LOCATION'')")
    (fastforce simp: retrieve_node_def Let_def and_then_Inr do_retrieval_query_def
      last_item_def split: if_splits)+







lemma get_lc_llm_trace: "get_lc_llm w = (t, r) \<Longrightarrow> t = []"
  by (auto simp: get_lc_llm_def Let_def and_then_def pure_step_def succeed_def
      split: prod.splits sum.splits)

lemma determine_question_type_after_client:
  assumes "get_lc_llm w = ([], Inr client)" and "messages state \<noteq> []"
  shows "determine_question_type w state =
     ([LlmInvokeStructured client
         [SystemMessage question_type_instruction, last (messages state)]],
      (case llm_invoke_structured w client
              [SystemMessage question_type_instruction, last (messages state)] of
         Inl e \<Rightarrow> Inl e
       | Inr response \<Rightarrow>
           (case question_type_of response of
              Inl e \<Rightarrow> Inl e
            | Inr label \<Rightarrow>
                Inr \<lparr>d_messages = None, d_question_type = Some label, d_corpus_data = None\<rparr>)))"
  using assms
  by (simp add: determine_question_type_def last_item_def and_then_def pure_step_def
      succeed_def do_llm_invoke_structured_def split: sum.splits)

lemma determine_question_type_response:
  assumes "determine_question_type w state = (t, Inr d)"
  shows "\<exists>client response.
           get_lc_llm w = ([], Inr client) \<and> messages state \<noteq> []
           \<and> t = [LlmInvokeStructured client
                    [SystemMessage question_type_instruction, last (messages state)]]
           \<and> llm_invoke_structured w client
                [SystemMessage question_type_instruction, last (messages state)]
               = Inr (Some response)
           \<and> d = \<lparr>d_messages = None,
                  d_question_type = Some (response_question_type response),
                  d_corpus_data = None\<rparr>"
proof -
  from assms obtain t1 client where g: "get_lc_llm w = (t1, Inr client)"
    unfolding determine_question_type_def and_then_Inr by blast
  then have g': "get_lc_llm w = ([], Inr client)"
    using get_lc_llm_trace by blast
  have ne: "messages state \<noteq> []"
    using assms g'
    by (auto simp: determine_question_type_def last_item_def and_then_def pure_step_def
        split: if_splits)
  show ?thesis
    using assms g' ne
    by (auto simp: determine_question_type_after_client [OF g' ne] question_type_of_def
        split: sum.splits option.splits)
qed

lemma get_lc_llm_demo:
  "get_lc_llm (demo_world env) =
     ([], Inr \<lparr>model = getenv_default (demo_world env) ''VERTEX_MODEL'' ''gemini-2.5-flash'',
              project = getenv (demo_world env) ''GCP_PROJECT_ID'',
              location = getenv_default (demo_world env) ''GCP_LOCATION'' ''us-central1'',
              temperature = Default_0_7, max_output_tokens = 8192\<rparr>)"
  if "map_of env ''VERTEX_TEMPERATURE'' = None" and "map_of env ''VERTEX_MAX_TOKENS'' = None"
  using that
  by (simp add: get_lc_llm_def Let_def demo_world_def run_defs)

lemma get_lc_llm_structured_update:
  "get_lc_llm (w\<lparr>llm_invoke_structured := f\<rparr>) = get_lc_llm w"
  by (simp add: get_lc_llm_def getenv_def getenv_default_def float_of_str_def int_of_str_def
      cong: option.case_cong)


section \<open>Properties\<close>

text \<open>
  C1. The router looks at \<open>question_type\<close> only: two states with the same
  \<open>question_type\<close> get the same label. The label is \<open>corpus_data_node\<close> when
  \<open>question_type\<close> is exactly \<open>corpus_overview\<close>, and \<open>retrieve_node\<close> for every other
  value, \<open>None\<close> and every other string included.
\<close>

theorem route_by_question_type_contract:
  "(question_type s = question_type t \<longrightarrow>
      route_by_question_type s = route_by_question_type t)
   \<and> (question_type s = Some ''corpus_overview'' \<longrightarrow>
      route_by_question_type s = ''corpus_data_node'')
   \<and> (question_type s \<noteq> Some ''corpus_overview'' \<longrightarrow>
      route_by_question_type s = ''retrieve_node'')"
  by (simp add: route_by_question_type_def)

theorem route_by_question_type_contract_witness:
  "route_by_question_type
     \<lparr>messages = [], question_type = Some ''corpus_overview'', corpus_data = None\<rparr>
     = ''corpus_data_node''
   \<and> route_by_question_type
     \<lparr>messages = [], question_type = None, corpus_data = None\<rparr> = ''retrieve_node''
   \<and> route_by_question_type
     \<lparr>messages = [], question_type = Some ''specific_query'', corpus_data = None\<rparr>
     = ''retrieve_node''
   \<and> route_by_question_type
     \<lparr>messages = [], question_type = Some ''Corpus_overview'', corpus_data = None\<rparr>
     = ''retrieve_node''
   \<and> route_by_question_type
     \<lparr>messages = [HumanMessage ''hello''], question_type = None, corpus_data = Some []\<rparr>
     = route_by_question_type
     \<lparr>messages = [], question_type = None, corpus_data = None\<rparr>"
  using
    route_by_question_type_contract
      [of "\<lparr>messages = [], question_type = Some ''corpus_overview'', corpus_data = None\<rparr>"
          "\<lparr>messages = [], question_type = Some ''corpus_overview'', corpus_data = None\<rparr>"]
    route_by_question_type_contract
      [of "\<lparr>messages = [], question_type = None, corpus_data = None\<rparr>"
          "\<lparr>messages = [], question_type = None, corpus_data = None\<rparr>"]
    route_by_question_type_contract
      [of "\<lparr>messages = [], question_type = Some ''specific_query'', corpus_data = None\<rparr>"
          "\<lparr>messages = [], question_type = Some ''specific_query'', corpus_data = None\<rparr>"]
    route_by_question_type_contract
      [of "\<lparr>messages = [], question_type = Some ''Corpus_overview'', corpus_data = None\<rparr>"
          "\<lparr>messages = [], question_type = Some ''Corpus_overview'', corpus_data = None\<rparr>"]
    route_by_question_type_contract
      [of "\<lparr>messages = [HumanMessage ''hello''], question_type = None, corpus_data = Some []\<rparr>"
          "\<lparr>messages = [], question_type = None, corpus_data = None\<rparr>"]
  by simp

text \<open>
  C2. For each of the five nodes and every state: when the node returns its dictionary,
  the \<open>messages\<close> of the merged state are the \<open>messages\<close> before with a list of new
  messages appended (at most one, as it happens), so the length does not decrease and the
  former sequence is the prefix of the new one, in the same order. The merge is the one of
  section 4.1 of the specification.
\<close>

theorem messages_append_only:
  "\<forall>(n, node) \<in> set nodes. \<forall>t d. node w state = (t, Inr d) \<longrightarrow>
      (\<exists>new. messages (merge_delta state d) = messages state @ new \<and> length new \<le> 1)
      \<and> length (messages state) \<le> length (messages (merge_delta state d))
      \<and> take (length (messages state)) (messages (merge_delta state d)) = messages state"
proof -
  have step: "(\<exists>new. messages (merge_delta state d) = messages state @ new \<and> length new \<le> 1)
      \<and> length (messages state) \<le> length (messages (merge_delta state d))
      \<and> take (length (messages state)) (messages (merge_delta state d)) = messages state"
    if "d_messages d = None \<or> (\<exists>new. d_messages d = Some new \<and> length new \<le> 1)" for d
    using that by (auto simp: merge_delta_def add_messages_def)
  have "d_messages d = None \<or> (\<exists>new. d_messages d = Some new \<and> length new \<le> 1)"
    if "(n, node) \<in> set nodes" and "node w state = (t, Inr d)" for n node t d
    using that upload_node_delta [of w state t d] determine_question_type_delta [of w state t d]
      corpus_data_node_delta [of w state t d] retrieve_node_delta [of w state t d]
      summary_node_delta [of w state t d]
    by (auto simp: nodes_def retrieve_result_def)
  with step show ?thesis by blast
qed


theorem messages_append_only_witness:
  "(''retrieve_node'', retrieve_node) \<in> set nodes
   \<and> retrieve_node (demo_world demo_env) demo_state =
       ([VertexaiInit ''project-1'' ''us-central1'',
         RagRetrievalQuery ''corpus-1'' ''What is in a.pdf?'' 5],
        Inr \<lparr>d_messages = Some [AIMessage (''alpha'' @ [CHR 0x0A, CHR 0x0A] @ ''beta'')
                  (Some [(''type'', ''rag_context'')])],
             d_question_type = None, d_corpus_data = None\<rparr>)
   \<and> messages (merge_delta demo_state
         \<lparr>d_messages = Some [AIMessage (''alpha'' @ [CHR 0x0A, CHR 0x0A] @ ''beta'')
                  (Some [(''type'', ''rag_context'')])],
          d_question_type = None, d_corpus_data = None\<rparr>)
       = [HumanMessage ''What is in a.pdf?'',
          AIMessage (''alpha'' @ [CHR 0x0A, CHR 0x0A] @ ''beta'') (Some [(''type'', ''rag_context'')])]
   \<and> length (messages demo_state) = 1"
  using messages_append_only [of "demo_world demo_env" demo_state] retrieve_demo
  by (simp add: nodes_def merge_delta_def add_messages_def demo_state_def)

text \<open>
  C3. \<open>retrieve_node\<close> is entered from \<open>determine_question_type\<close> only, which reads the
  last message itself, so its state has a message. On such a state: if \<open>RAG_CORPUS\<close>,
  \<open>GCP_PROJECT_ID\<close> or \<open>GCP_LOCATION\<close> is unset or empty, the node makes no remote call and
  raises a \<open>ValueError\<close>: the one of lines 87 to 92 that names such a variable, or the one
  of \<open>int\<close> at line 84 when \<open>RAG_TOP_K\<close> holds something \<open>int\<close> rejects; with \<open>RAG_TOP_K\<close>
  unset it is the one that names a variable. If the three are set and \<open>RAG_TOP_K\<close> is
  unset, the node goes on to \<open>vertexai.init\<close> and to the retrieval query with
  \<open>top_k = 5\<close>.
\<close>

theorem retrieve_node_missing_configuration:
  assumes "messages state \<noteq> []"
  shows
    "(truthy (getenv w ''RAG_CORPUS'') = None \<or> truthy (getenv w ''GCP_PROJECT_ID'') = None
        \<or> truthy (getenv w ''GCP_LOCATION'') = None \<longrightarrow>
        (\<exists>e. retrieve_node w state = ([], Inl (ValueError e)))
        \<and> (retrieve_node w state =
              ([], Inl (ValueError (CannotConvert (getenv_default w ''RAG_TOP_K'' ''5''))))
           \<or> (\<exists>v \<in> set [''RAG_CORPUS'', ''GCP_PROJECT_ID'', ''GCP_LOCATION''].
                 truthy (getenv w v) = None
                 \<and> retrieve_node w state =
                     ([], Inl (ValueError (Message (v @ '' environment variable is required''))))))
        \<and> (getenv w ''RAG_TOP_K'' = None \<longrightarrow>
             (\<exists>v \<in> set [''RAG_CORPUS'', ''GCP_PROJECT_ID'', ''GCP_LOCATION''].
                 truthy (getenv w v) = None
                 \<and> retrieve_node w state =
                     ([], Inl (ValueError (Message (v @ '' environment variable is required'')))))))
     \<and> (truthy (getenv w ''RAG_CORPUS'') = Some c \<and> truthy (getenv w ''GCP_PROJECT_ID'') = Some p
        \<and> truthy (getenv w ''GCP_LOCATION'') = Some l \<and> getenv w ''RAG_TOP_K'' = None \<longrightarrow>
        retrieve_node w state =
          and_then (do_vertexai_init w p l) (\<lambda>_.
          and_then (do_retrieval_query w c (content (last (messages state))) 5) (\<lambda>resp.
          succeed (retrieve_result resp))))"
proof -
  let ?k = "getenv_default w ''RAG_TOP_K'' ''5''"
  let ?named = "\<exists>v \<in> set [''RAG_CORPUS'', ''GCP_PROJECT_ID'', ''GCP_LOCATION''].
                 truthy (getenv w v) = None
                 \<and> retrieve_node w state =
                     ([], Inl (ValueError (Message (v @ '' environment variable is required''))))"
  have rejected: "retrieve_node w state = ([], Inl (ValueError (CannotConvert ?k)))"
    if "int_of_str w ?k = Inl (ValueError (CannotConvert ?k))"
    using that by (simp add: retrieve_node_def Let_def)
  have named: ?named
    if "int_of_str w ?k = Inr top_k"
      and "truthy (getenv w ''RAG_CORPUS'') = None \<or> truthy (getenv w ''GCP_PROJECT_ID'') = None
        \<or> truthy (getenv w ''GCP_LOCATION'') = None" for top_k
    using that(2)
    by (cases "truthy (getenv w ''RAG_CORPUS'')"; cases "truthy (getenv w ''GCP_PROJECT_ID'')";
        cases "truthy (getenv w ''GCP_LOCATION'')")
      (simp_all add: retrieve_node_after_reads [OF assms that(1)])
  have unset: "int_of_str w ?k = Inr 5" if "getenv w ''RAG_TOP_K'' = None"
    using that by (simp add: getenv_def getenv_default_def)
  have first: "(\<exists>e. retrieve_node w state = ([], Inl (ValueError e)))
        \<and> (retrieve_node w state = ([], Inl (ValueError (CannotConvert ?k))) \<or> ?named)
        \<and> (getenv w ''RAG_TOP_K'' = None \<longrightarrow> ?named)"
    if any: "truthy (getenv w ''RAG_CORPUS'') = None \<or> truthy (getenv w ''GCP_PROJECT_ID'') = None
        \<or> truthy (getenv w ''GCP_LOCATION'') = None"
  proof -
    have d: "retrieve_node w state = ([], Inl (ValueError (CannotConvert ?k))) \<or> ?named"
      using int_of_str_cases [of w ?k] rejected named any by blast
    then have e: "\<exists>e. retrieve_node w state = ([], Inl (ValueError e))"
      by auto
    have u: ?named if "getenv w ''RAG_TOP_K'' = None"
      using named [OF unset [OF that] any] .
    from d e u show ?thesis
      by blast
  qed
  have second: "retrieve_node w state =
          and_then (do_vertexai_init w p l) (\<lambda>_.
          and_then (do_retrieval_query w c (content (last (messages state))) 5) (\<lambda>resp.
          succeed (retrieve_result resp)))"
    if "truthy (getenv w ''RAG_CORPUS'') = Some c" and "truthy (getenv w ''GCP_PROJECT_ID'') = Some p"
      and "truthy (getenv w ''GCP_LOCATION'') = Some l" and "getenv w ''RAG_TOP_K'' = None"
    using that by (simp add: retrieve_node_after_reads [OF assms unset])
  from first second show ?thesis
    by blast
qed

theorem retrieve_node_missing_configuration_witness:
  "messages demo_state \<noteq> []
   \<and> truthy (getenv (demo_world [(''RAG_CORPUS'', ''corpus-1''), (''GCP_PROJECT_ID'', ''project-1'')])
         ''GCP_LOCATION'') = None
   \<and> getenv (demo_world [(''RAG_CORPUS'', ''corpus-1''), (''GCP_PROJECT_ID'', ''project-1'')])
         ''RAG_TOP_K'' = None
   \<and> retrieve_node (demo_world [(''RAG_CORPUS'', ''corpus-1''), (''GCP_PROJECT_ID'', ''project-1'')])
         demo_state
       = ([], Inl (ValueError (Message ''GCP_LOCATION environment variable is required'')))
   \<and> retrieve_node (demo_world [(''RAG_TOP_K'', ''abc'')]) demo_state
       = ([], Inl (ValueError (CannotConvert ''abc'')))
   \<and> fst (retrieve_node (demo_world demo_env) demo_state) =
         [VertexaiInit ''project-1'' ''us-central1'',
          RagRetrievalQuery ''corpus-1'' ''What is in a.pdf?'' 5]"
proof -
  have m: "messages demo_state \<noteq> []"
    by (simp add: demo_state_def)
  show ?thesis
    using m
      retrieve_node_missing_configuration [OF m,
        of "demo_world [(''RAG_CORPUS'', ''corpus-1''), (''GCP_PROJECT_ID'', ''project-1'')]"
           "''corpus-1''" "''project-1''" "[]"]
      retrieve_node_missing_configuration [OF m, of "demo_world [(''RAG_TOP_K'', ''abc'')]"
           "[]" "[]" "[]"]
      retrieve_node_missing_configuration [OF m, of "demo_world demo_env"
           "''corpus-1''" "''project-1''" "''us-central1''"]
    by (simp add: retrieve_node_def demo_defs run_defs int_defs retrieve_result_def
        HumanMessage_def Let_def)
qed

text \<open>
  C4. For every state, if \<open>GCS_BUCKET\<close> or \<open>RAG_CORPUS\<close> is unset (or empty), \<open>upload_node\<close>
  makes no remote call, raises nothing and returns the dictionary with the empty message
  list; merging it leaves the state as it was, and the edge from \<open>upload_node\<close> leads to
  \<open>determine_question_type\<close>.
\<close>

theorem upload_node_soft_fail:
  assumes "truthy (getenv w ''GCS_BUCKET'') = None \<or> truthy (getenv w ''RAG_CORPUS'') = None"
  shows "upload_node w state =
           ([], Inr \<lparr>d_messages = Some [], d_question_type = None, d_corpus_data = None\<rparr>)
         \<and> merge_delta state
             \<lparr>d_messages = Some [], d_question_type = None, d_corpus_data = None\<rparr> = state
         \<and> next_node ''upload_node'' state = Some ''determine_question_type''"
  using assms
  by (auto simp: upload_node_def Let_def succeed_def merge_delta_def add_messages_def
      next_node_def split: option.splits)

theorem upload_node_soft_fail_witness:
  "truthy (getenv (demo_world [(''RAG_CORPUS'', ''corpus-1'')]) ''GCS_BUCKET'') = None
   \<and> upload_node (demo_world [(''RAG_CORPUS'', ''corpus-1'')]) demo_state =
       ([], Inr \<lparr>d_messages = Some [], d_question_type = None, d_corpus_data = None\<rparr>)
   \<and> merge_delta demo_state
       \<lparr>d_messages = Some [], d_question_type = None, d_corpus_data = None\<rparr> = demo_state"
  using upload_node_soft_fail [of "demo_world [(''RAG_CORPUS'', ''corpus-1'')]" demo_state]
  by (simp add: demo_defs run_defs)

text \<open>
  C5. \<open>upload_file_by_index\<close> sorts the listing of the staging directory and takes the
  file at the index given. For every index that is negative or at least the number of
  files listed, it raises \<open>IndexError\<close> with no upload and no import made; for an index in
  range, its first call uploads the file at that position of the sorted listing. The
  sorted listing is ordered and holds the same names. \<open>upload_node\<close>, which asks for index
  1 with bucket and corpus configured, does not catch the error: on a listing of at most
  one file it ends with it.
\<close>

theorem upload_file_by_index_bounds:
  assumes "listdir w files_dir = Inr listing"
  shows
    "(index < 0 \<or> int (length listing) \<le> index \<longrightarrow>
        upload_file_by_index w index bucket corpus_name files_dir chunk_size chunk_overlap =
          ([], Inl (IndexError (''Index '' @ str_int index @ '' out of range. Found ''
                      @ str_int (int (length listing)) @ '' files.''))))
     \<and> (0 \<le> index \<and> index < int (length listing) \<longrightarrow>
        (\<exists>t r. upload_file_by_index w index bucket corpus_name files_dir chunk_size chunk_overlap =
           (UploadFromFilename (replace ''gs://'' [] bucket) (sort listing ! nat index)
              (path_join files_dir (sort listing ! nat index)) # t, r)))
     \<and> sorted (sort listing) \<and> set (sort listing) = set listing
     \<and> length (sort listing) = length listing
     \<and> (files_dir = ''files_to_upload'' \<and> length listing \<le> 1
        \<and> truthy (getenv w ''GCS_BUCKET'') \<noteq> None \<and> truthy (getenv w ''RAG_CORPUS'') \<noteq> None \<longrightarrow>
        upload_node w state =
          ([], Inl (IndexError (''Index 1 out of range. Found ''
                      @ str_int (int (length listing)) @ '' files.''))))"
proof -
  have node: "upload_node w state =
          ([], Inl (IndexError (''Index 1 out of range. Found ''
                      @ str_int (int (length listing)) @ '' files.'')))"
    if "files_dir = ''files_to_upload''" and "length listing \<le> 1"
      and "truthy (getenv w ''GCS_BUCKET'') = Some b" and "truthy (getenv w ''RAG_CORPUS'') = Some c"
    for b c
  proof -
    have "listdir w ''files_to_upload'' = Inr listing" and "(1::int) < 0 \<or> int (length listing) \<le> 1"
      using assms that by auto
    from upload_file_by_index_out_of_range [OF this]
    show ?thesis
      using that by (simp add: upload_node_def Let_def str_int_def str_nat.simps)
  qed
  show ?thesis
    using upload_file_by_index_out_of_range [OF assms]
      upload_file_by_index_in_range [OF assms] node
    by auto
qed

theorem upload_file_by_index_bounds_witness:
  "listdir (demo_world demo_env) ''files_to_upload'' = Inr [''b.pdf'', ''a.pdf'']
   \<and> upload_file_by_index (demo_world demo_env) 5 ''gs://bucket'' ''corpus-1''
        ''files_to_upload'' 1024 256
       = ([], Inl (IndexError ''Index 5 out of range. Found 2 files.''))
   \<and> upload_file_by_index (demo_world demo_env) (- 1) ''gs://bucket'' ''corpus-1''
        ''files_to_upload'' 1024 256
       = ([], Inl (IndexError ''Index -1 out of range. Found 2 files.''))
   \<and> sort [''b.pdf'', ''a.pdf''] = [''a.pdf'', ''b.pdf'']
   \<and> fst (upload_file_by_index (demo_world demo_env) 0 ''gs://bucket'' ''corpus-1''
        ''files_to_upload'' 1024 256)
       = [UploadFromFilename ''bucket'' ''a.pdf'' ''files_to_upload/a.pdf'',
          VertexaiInit ''project-1'' ''us-central1'',
          RagImportFiles ''corpus-1'' [''gs://bucket/a.pdf''] 1024 256]"
proof -
  have l: "listdir (demo_world demo_env) ''files_to_upload'' = Inr [''b.pdf'', ''a.pdf'']"
    by (simp add: demo_defs)
  have r: "replace ''gs://'' [] ''gs://bucket'' = ''bucket''"
    by (simp add: replace.simps)
  show ?thesis
    using l upload_file_by_index_bounds [OF l, of 5 "''gs://bucket''" "''corpus-1''" 1024 256 demo_state]
      upload_file_by_index_bounds [OF l, of "- 1" "''gs://bucket''" "''corpus-1''" 1024 256 demo_state]
      upload_file_by_index_bounds [OF l, of 0 "''gs://bucket''" "''corpus-1''" 1024 256 demo_state]
    by (simp add: str_int_def str_nat.simps upload_file_by_index_def upload_to_gcs_def
        import_files_to_rag_corpus_def path_join_def r demo_defs run_defs Let_def)
qed

text \<open>
  C6. When \<open>retrieve_node\<close> returns, its dictionary carries one message, an \<open>AIMessage\<close>
  with the metadata \<open>{"type": "rag_context"}\<close>, built from the response of the retrieval
  query on the content of the last message: its content is the fixed sentence when no
  text was extracted, and the extracted texts joined by two newlines otherwise.
\<close>

theorem retrieve_node_context_message:
  assumes "retrieve_node w state = (t, Inr d)"
  shows "\<exists>resp c top_k.
           rag_retrieval_query w c (content (last (messages state))) top_k = Inr resp
           \<and> d_messages d =
               Some [\<lparr>role = AI,
                      content =
                        (if extract_context_texts resp = []
                         then ''No relevant context was found in the knowledge base.''
                         else join [CHR 0x0A, CHR 0x0A] (extract_context_texts resp)),
                      metadata = Some [(''type'', ''rag_context'')]\<rparr>]"
proof -
  from retrieve_node_response [OF assms] obtain resp c top_k
    where q: "rag_retrieval_query w c (content (last (messages state))) top_k = Inr resp"
      and d: "d = retrieve_result resp"
    by blast
  have "d_messages d =
               Some [\<lparr>role = AI,
                      content =
                        (if extract_context_texts resp = []
                         then ''No relevant context was found in the knowledge base.''
                         else join [CHR 0x0A, CHR 0x0A] (extract_context_texts resp)),
                      metadata = Some [(''type'', ''rag_context'')]\<rparr>]"
    by (simp add: d retrieve_result_def context_text_of_def AIMessage_def)
  with q show ?thesis by blast
qed

theorem retrieve_node_context_message_witness:
  "retrieve_node
     (demo_world_contexts (Some (Sequence [])))
     demo_state
   = ([VertexaiInit ''project-1'' ''us-central1'',
       RagRetrievalQuery ''corpus-1'' ''What is in a.pdf?'' 5],
      Inr \<lparr>d_messages =
             Some [\<lparr>role = AI,
                    content = ''No relevant context was found in the knowledge base.'',
                    metadata = Some [(''type'', ''rag_context'')]\<rparr>],
           d_question_type = None, d_corpus_data = None\<rparr>)
   \<and> d_messages (projr (snd (retrieve_node (demo_world demo_env) demo_state))) =
       Some [\<lparr>role = AI, content = ''alpha'' @ [CHR 0x0A, CHR 0x0A] @ ''beta'',
              metadata = Some [(''type'', ''rag_context'')]\<rparr>]"
proof -
  have e: "retrieve_node
     (demo_world_contexts (Some (Sequence [])))
     demo_state
   = ([VertexaiInit ''project-1'' ''us-central1'',
       RagRetrievalQuery ''corpus-1'' ''What is in a.pdf?'' 5],
      Inr \<lparr>d_messages =
             Some [\<lparr>role = AI,
                    content = ''No relevant context was found in the knowledge base.'',
                    metadata = Some [(''type'', ''rag_context'')]\<rparr>],
           d_question_type = None, d_corpus_data = None\<rparr>)"
    by (simp add: retrieve_node_def demo_defs run_defs retrieve_result_def
      extract_context_texts_def context_text_of_def List.map_filter_def HumanMessage_def
      AIMessage_def)
  show ?thesis
    using e retrieve_node_context_message [OF e] retrieve_node_context_message [OF retrieve_demo]
    by (simp add: retrieve_demo AIMessage_def)
qed



text \<open>
  C8. A response whose \<open>contexts\<close> attribute is the sequence of contexts and a response
  whose \<open>contexts\<close> attribute holds that sequence one level deeper give the same texts,
  those of the contexts that have a \<open>text\<close>, in order, and so the same dictionary.
\<close>

theorem extract_context_texts_uniform:
  "extract_context_texts \<lparr>contexts = Some (Sequence cs)\<rparr>
     = extract_context_texts \<lparr>contexts = Some (Container cs)\<rparr>
   \<and> extract_context_texts \<lparr>contexts = Some (Sequence cs)\<rparr> = List.map_filter context_text cs
   \<and> retrieve_result \<lparr>contexts = Some (Sequence cs)\<rparr>
     = retrieve_result \<lparr>contexts = Some (Container cs)\<rparr>"
  by (simp add: extract_context_texts_def retrieve_result_def)

text \<open>
  C9, as the claim states it, fails in its clause on an empty or unparseable response,
  "no error": lines 180 to 198 have no guard and no handler. When the structured call
  returns \<open>None\<close>, having parsed no object out of the model's output,
  \<open>response.question_type\<close> at line 194 raises \<open>AttributeError\<close>; when the call raises,
  the node ends with that exception. In both cases no dictionary is returned.
\<close>

theorem determine_question_type_no_response_counterexample:
  "llm_invoke_structured (demo_world_structured (Inr None)) demo_client demo_prompt = Inr None
   \<and> determine_question_type (demo_world_structured (Inr None)) demo_state =
       ([LlmInvokeStructured demo_client demo_prompt], Inl no_question_type)
   \<and> determine_question_type
         (demo_world_structured (Inl (ServiceError ''unparseable output''))) demo_state =
       ([LlmInvokeStructured demo_client demo_prompt],
        Inl (ServiceError ''unparseable output''))"
proof -
  have g: "get_lc_llm (demo_world_structured r) = ([], Inr demo_client)" for r
    by (simp add: demo_world_structured_def get_lc_llm_structured_update get_lc_llm_demo
        demo_env_def demo_client_def)
      (simp add: demo_world_def getenv_def getenv_default_def)
  have m: "messages demo_state \<noteq> []"
    by (simp add: demo_state_def)
  show ?thesis
    by (simp add: determine_question_type_after_client [OF g m])
      (simp add: demo_world_structured_def demo_state_def demo_prompt_def question_type_of_def)
qed

text \<open>
  C9, amended. \<open>question_type\<close> is written by \<open>determine_question_type\<close> only. Once
  \<open>get_lc_llm\<close> has built the client and the state has a message, the node makes exactly
  one structured call, on the instruction and the last message. If the call returns an
  object of the schema, the node returns a dictionary that sets \<open>question_type\<close> to the
  label of the object, \<open>None\<close> when the object carries none; if the call returns \<open>None\<close>
  the node ends with the \<open>AttributeError\<close>, and if the call raises, with that exception.
  Every dictionary the node returns comes from such a call. No other node returns a
  dictionary with the key \<open>question_type\<close>.
\<close>

theorem question_type_written_by_classifier_only:
  "(get_lc_llm w = ([], Inr client) \<and> messages state \<noteq> [] \<longrightarrow>
      determine_question_type w state =
        ([LlmInvokeStructured client
            [SystemMessage question_type_instruction, last (messages state)]],
         (case llm_invoke_structured w client
                 [SystemMessage question_type_instruction, last (messages state)] of
            Inl e \<Rightarrow> Inl e
          | Inr None \<Rightarrow> Inl no_question_type
          | Inr (Some response) \<Rightarrow>
              Inr \<lparr>d_messages = None,
                   d_question_type = Some (response_question_type response),
                   d_corpus_data = None\<rparr>)))
   \<and> (\<forall>t d. determine_question_type w state = (t, Inr d) \<longrightarrow>
        (\<exists>c response.
            t = [LlmInvokeStructured c
                   [SystemMessage question_type_instruction, last (messages state)]]
            \<and> llm_invoke_structured w c
                 [SystemMessage question_type_instruction, last (messages state)]
                = Inr (Some response)
            \<and> d_question_type d = Some (response_question_type response)))
   \<and> (\<forall>(n, node) \<in> set nodes. n \<noteq> ''determine_question_type'' \<longrightarrow>
        (\<forall>t d. node w state = (t, Inr d) \<longrightarrow> d_question_type d = None))"
proof (intro conjI allI impI)
  assume "get_lc_llm w = ([], Inr client) \<and> messages state \<noteq> []"
  then have g: "get_lc_llm w = ([], Inr client)" and m: "messages state \<noteq> []"
    by simp_all
  show "determine_question_type w state =
        ([LlmInvokeStructured client
            [SystemMessage question_type_instruction, last (messages state)]],
         (case llm_invoke_structured w client
                 [SystemMessage question_type_instruction, last (messages state)] of
            Inl e \<Rightarrow> Inl e
          | Inr None \<Rightarrow> Inl no_question_type
          | Inr (Some response) \<Rightarrow>
              Inr \<lparr>d_messages = None,
                   d_question_type = Some (response_question_type response),
                   d_corpus_data = None\<rparr>))"
    by (simp add: determine_question_type_after_client [OF g m] question_type_of_def
        split: sum.splits option.splits)
next
  fix t d
  assume "determine_question_type w state = (t, Inr d)"
  from determine_question_type_response [OF this]
  show "\<exists>c response.
            t = [LlmInvokeStructured c
                   [SystemMessage question_type_instruction, last (messages state)]]
            \<and> llm_invoke_structured w c
                 [SystemMessage question_type_instruction, last (messages state)]
                = Inr (Some response)
            \<and> d_question_type d = Some (response_question_type response)"
    by auto
next
  have "d_question_type d = None"
    if "(n, node) \<in> set nodes" and "n \<noteq> ''determine_question_type''"
      and "node w state = (t, Inr d)" for n node t d
    using that upload_node_delta [of w state t d] corpus_data_node_delta [of w state t d]
      retrieve_node_delta [of w state t d] summary_node_delta [of w state t d]
    by (auto simp: nodes_def retrieve_result_def)
  then show "\<forall>(n, node) \<in> set nodes. n \<noteq> ''determine_question_type'' \<longrightarrow>
        (\<forall>t d. node w state = (t, Inr d) \<longrightarrow> d_question_type d = None)"
    by blast
qed

theorem question_type_written_by_classifier_only_witness:
  "get_lc_llm (demo_world demo_env) = ([], Inr demo_client)
   \<and> messages demo_state \<noteq> []
   \<and> determine_question_type (demo_world demo_env) demo_state =
       ([LlmInvokeStructured demo_client demo_prompt],
        Inr \<lparr>d_messages = None, d_question_type = Some (Some ''corpus_overview''),
             d_corpus_data = None\<rparr>)
   \<and> determine_question_type
         (demo_world_structured (Inr (Some (QuestionTypeResponse None)))) demo_state =
       ([LlmInvokeStructured demo_client demo_prompt],
        Inr \<lparr>d_messages = None, d_question_type = Some None, d_corpus_data = None\<rparr>)
   \<and> (''retrieve_node'', retrieve_node) \<in> set nodes
   \<and> d_question_type (projr (snd (retrieve_node (demo_world demo_env) demo_state))) = None"
proof -
  have g: "get_lc_llm (demo_world demo_env) = ([], Inr demo_client)"
    by (simp add: get_lc_llm_demo demo_env_def demo_client_def)
      (simp add: demo_world_def getenv_def getenv_default_def)
  have g': "get_lc_llm (demo_world_structured r) = ([], Inr demo_client)" for r
    using g by (simp add: demo_world_structured_def get_lc_llm_structured_update)
  have m: "messages demo_state \<noteq> []"
    by (simp add: demo_state_def)
  have p: "[SystemMessage question_type_instruction, last (messages demo_state)] = demo_prompt"
    by (simp add: demo_state_def demo_prompt_def)
  have a: "llm_invoke_structured (demo_world demo_env) demo_client demo_prompt =
             Inr (Some (QuestionTypeResponse (Some ''corpus_overview'')))"
    by (simp add: demo_world_def)
  have b: "llm_invoke_structured (demo_world_structured r) demo_client demo_prompt = r" for r
    by (simp add: demo_world_structured_def)
  show ?thesis
    using g m
      question_type_written_by_classifier_only [of "demo_world demo_env" demo_client demo_state]
      question_type_written_by_classifier_only
        [of "demo_world_structured (Inr (Some (QuestionTypeResponse None)))" demo_client demo_state]
    by (simp add: g' p a b retrieve_demo nodes_def)
qed

text \<open>
  C10, as the claim states it, fails where \<open>RAG_TOP_K\<close> holds something \<open>int\<close> rejects:
  line 84 converts it before line 85 reads the last message, so on an empty \<open>messages\<close>
  the node ends with the \<open>ValueError\<close> of \<open>int\<close>, not with the \<open>IndexError\<close>.
\<close>

theorem retrieve_node_empty_messages_counterexample:
  "messages no_messages = []
   \<and> retrieve_node (demo_world [(''RAG_TOP_K'', ''abc'')]) no_messages
     = ([], Inl (ValueError (CannotConvert ''abc'')))"
  by (simp add: retrieve_node_def demo_world_def no_messages_def run_defs int_defs)

text \<open>
  C10, amended. On a state with no messages neither \<open>retrieve_node\<close> nor
  \<open>determine_question_type\<close> returns a dictionary, and neither makes a remote call.
  \<open>retrieve_node\<close> ends with the \<open>ValueError\<close> of \<open>int\<close> when \<open>int\<close> rejects the value of
  \<open>RAG_TOP_K\<close>, and otherwise (\<open>RAG_TOP_K\<close> unset, or a value \<open>int\<close> accepts) with the
  \<open>IndexError\<close> of \<open>state.messages[-1]\<close>, whatever the configuration of corpus, project
  and location: the read precedes the three checks. \<open>determine_question_type\<close>, once
  \<open>get_lc_llm\<close> has built its client, ends with the same \<open>IndexError\<close> before any call of
  the model.
\<close>

theorem nodes_require_messages:
  assumes "messages state = []"
  shows "retrieve_node w state =
           ([], Inl (case int_of_str w (getenv_default w ''RAG_TOP_K'' ''5'') of
                       Inl e \<Rightarrow> e
                     | Inr top_k \<Rightarrow> IndexError ''list index out of range''))
         \<and> (getenv w ''RAG_TOP_K'' = None \<longrightarrow>
              retrieve_node w state = ([], Inl (IndexError ''list index out of range'')))
         \<and> (\<forall>top_k. int_of_str w (getenv_default w ''RAG_TOP_K'' ''5'') = Inr top_k \<longrightarrow>
              retrieve_node w state = ([], Inl (IndexError ''list index out of range'')))
         \<and> (\<forall>t d. retrieve_node w state \<noteq> (t, Inr d))
         \<and> (\<forall>client. get_lc_llm w = ([], Inr client) \<longrightarrow>
              determine_question_type w state = ([], Inl (IndexError ''list index out of range'')))
         \<and> (\<forall>t d. determine_question_type w state \<noteq> (t, Inr d))"
proof -
  have r: "retrieve_node w state =
           ([], Inl (case int_of_str w (getenv_default w ''RAG_TOP_K'' ''5'') of
                       Inl e \<Rightarrow> e
                     | Inr top_k \<Rightarrow> IndexError ''list index out of range''))"
    using assms
    by (cases "int_of_str w (getenv_default w ''RAG_TOP_K'' ''5'')")
      (simp_all add: retrieve_node_def Let_def last_item_def)
  have u: "retrieve_node w state = ([], Inl (IndexError ''list index out of range''))"
    if "getenv w ''RAG_TOP_K'' = None"
    using that by (simp add: r getenv_def getenv_default_def)
  have k: "retrieve_node w state = ([], Inl (IndexError ''list index out of range''))"
    if "int_of_str w (getenv_default w ''RAG_TOP_K'' ''5'') = Inr top_k" for top_k
    using that by (simp add: r)
  have n: "retrieve_node w state \<noteq> (t, Inr d)" for t d
    by (simp add: r)
  have c: "determine_question_type w state = ([], Inl (IndexError ''list index out of range''))"
    if "get_lc_llm w = ([], Inr client)" for client
    using that assms
    by (simp add: determine_question_type_def last_item_def and_then_def pure_step_def)
  have dn: "determine_question_type w state \<noteq> (t, Inr d)" for t d
    using assms determine_question_type_response [of w state t d] by blast
  from r u k n c dn show ?thesis
    by blast
qed

theorem nodes_require_messages_witness:
  "messages no_messages = []
   \<and> getenv (demo_world []) ''RAG_CORPUS'' = None
   \<and> getenv (demo_world []) ''RAG_TOP_K'' = None
   \<and> retrieve_node (demo_world []) no_messages
       = ([], Inl (IndexError ''list index out of range''))
   \<and> retrieve_node (demo_world [(''RAG_TOP_K'', '' 1_0 '')]) no_messages
       = ([], Inl (IndexError ''list index out of range''))
   \<and> determine_question_type (demo_world []) no_messages
       = ([], Inl (IndexError ''list index out of range''))"
proof -
  have m: "messages no_messages = []"
    by (simp add: no_messages_def)
  have e: "getenv (demo_world []) ''RAG_CORPUS'' = None"
    "getenv (demo_world []) ''RAG_TOP_K'' = None"
    by (simp_all add: demo_world_def getenv_def)
  have k: "int_of_str (demo_world [(''RAG_TOP_K'', '' 1_0 '')])
             (getenv_default (demo_world [(''RAG_TOP_K'', '' 1_0 '')]) ''RAG_TOP_K'' ''5'') = Inr 10"
    by (simp add: demo_world_def getenv_default_def int_defs)
  have g: "get_lc_llm (demo_world []) =
     ([], Inr \<lparr>model = ''gemini-2.5-flash'', project = None,
          location = ''us-central1'', temperature = Default_0_7, max_output_tokens = 8192\<rparr>)"
    by (simp add: get_lc_llm_demo) (simp add: demo_world_def getenv_def getenv_default_def)
  from nodes_require_messages [OF m, of "demo_world []"] e g
  have "retrieve_node (demo_world []) no_messages
          = ([], Inl (IndexError ''list index out of range''))"
    and "determine_question_type (demo_world []) no_messages
          = ([], Inl (IndexError ''list index out of range''))"
    by blast+
  moreover from nodes_require_messages [OF m, of "demo_world [(''RAG_TOP_K'', '' 1_0 '')]"] k
  have "retrieve_node (demo_world [(''RAG_TOP_K'', '' 1_0 '')]) no_messages
          = ([], Inl (IndexError ''list index out of range''))"
    by blast
  ultimately show ?thesis
    using m e by simp
qed

end
